theory Spec2Isabelle
  imports Main
begin

section \<open>Documents and document kinds\<close>

text \<open>
  A \<open>vscode.TextDocument\<close> as far as \<open>extension.ts\<close> reads it: the path of its uri, which is
  also the identity under which its diagnostics are kept, and its text.  A position is a
  line and a character.
\<close>

record textDocument =
  fsPath :: string
  getText :: string

type_synonym position = "nat \<times> nat"

definition endsWith :: "string \<Rightarrow> string \<Rightarrow> bool" where
  "endsWith s e = (length e \<le> length s \<and> drop (length s - length e) s = e)"

text \<open>
  The guard of every document event handler, the test of the regular expression
  \<^verbatim>\<open>/\.(interface|capabilitymodel)\.json$/\<close> on \<open>document.uri.fsPath\<close>.
\<close>

definition isMetaModelFile :: "textDocument \<Rightarrow> bool" where
  "isMetaModelFile document =
     (endsWith (fsPath document) ''.interface.json'' \<or>
      endsWith (fsPath document) ''.capabilitymodel.json'')"

text \<open>\<open>getDocumentType\<close> (extension.ts, lines 31-37).\<close>

definition getDocumentType :: "textDocument \<Rightarrow> string" where
  "getDocumentType document =
     (if endsWith (fsPath document) ''.interface.json'' then ''Interface''
      else ''CapabilityModel'')"


section \<open>The collaborators of the providers\<close>

text \<open>
  The two \<open>DigitalTwinMetaModelContext\<close> objects built at activation, \<open>dtInterface\<close> and
  \<open>dtCapabilityModel\<close>.
\<close>

datatype dtContext = dtInterface | dtCapabilityModel

text \<open>
  An entry of a key list, \<^verbatim>\<open>{label: string, required: boolean, type?: string}\<close>; a missing
  \<open>type\<close> is \<open>None\<close>.
\<close>

record keyObject =
  label :: string
  required :: bool
  type :: "string option"

text \<open>
  The methods of \<open>DigitalTwinMetaModelParser\<close> that the providers call.  The class is not
  among the sources, so the methods are parameters of the model: every theorem below
  holds for whatever they return.  An id or a comment that is \<open>undefined\<close> or \<open>null\<close> is
  \<open>None\<close>.
\<close>

record dtParser =
  getIdFromShortName :: "dtContext \<Rightarrow> string option \<Rightarrow> string option"
  getTypesFromId :: "dtContext \<Rightarrow> string \<Rightarrow> string list"
  getTypedPropertiesFromType :: "dtContext \<Rightarrow> string \<Rightarrow> keyObject list"
  getStringValuesFromShortName :: "dtContext \<Rightarrow> string \<Rightarrow> string list"
  getCommentFromId :: "string \<Rightarrow> string option"

text \<open>
  What \<open>getJsonInfoAtPosition\<close> returns, as far as the completion provider reads it.
  \<open>jsonInfo.type\<close> is \<open>undefined\<close>, a string or an array of strings; the field is named
  \<open>jsonType\<close> here, \<open>type\<close> being the field of a key object.  The token list and the
  offset only serve to compute the range that a completion item replaces; they are left
  to the editor adapter.
\<close>

datatype typeValue = TypeUndefined | TypeString string | TypeArray "string list"

record jsonInfo =
  isValue :: bool
  key :: string
  lastKey :: "string option"
  jsonType :: typeValue
  properties :: "string list"

text \<open>
  The static functions of \<open>DigitalTwinMetaModelJsonParser\<close> that the providers call, again
  parameters of the model.
\<close>

record jsonParser =
  getJsonInfoAtPosition :: "textDocument \<Rightarrow> position \<Rightarrow> jsonInfo option"
  getDigitalTwinContextTypeAtPosition :: "textDocument \<Rightarrow> position \<Rightarrow> string \<Rightarrow> string"
  getIdAtPosition :: "textDocument \<Rightarrow> position \<Rightarrow> dtContext \<Rightarrow> string option"

text \<open>
  JavaScript's truth value of a string that may be missing: \<open>undefined\<close>, \<open>null\<close> and the
  empty string are false.  An array, even an empty one, is true.
\<close>

definition truthy :: "string option \<Rightarrow> bool" where
  "truthy v = (case v of None \<Rightarrow> False | Some s \<Rightarrow> s \<noteq> [])"

definition truthyType :: "typeValue \<Rightarrow> bool" where
  "truthyType t =
     (case t of TypeUndefined \<Rightarrow> False | TypeString s \<Rightarrow> s \<noteq> [] | TypeArray ts \<Rightarrow> True)"


section \<open>The completion provider\<close>

subsection \<open>Value position (extension.ts, lines 207-237)\<close>

text \<open>
  The list \<open>values\<close>, or \<open>None\<close> where the provider returns \<open>null\<close> (line 219).
\<close>

definition valueCompletion ::
  "dtParser \<Rightarrow> string \<Rightarrow> dtContext \<Rightarrow> jsonInfo \<Rightarrow> string list option" where
  "valueCompletion parser contextType context ji =
     (if key ji = ''@context'' then
        Some [if contextType = ''Interface''
              then ''http://azureiot.com/v0/contexts/Interface.json''
              else ''http://azureiot.com/v0/contexts/CapabilityModel.json'']
      else if key ji = ''@type'' then
        (if truthy (lastKey ji) then
           (case getIdFromShortName parser context (lastKey ji) of
              None \<Rightarrow> None
            | Some i \<Rightarrow> if i = [] then None else Some (getTypesFromId parser context i))
         else Some [contextType])
      else Some (getStringValuesFromShortName parser context (key ji)))"

subsection \<open>Key position (extension.ts, lines 239-317)\<close>

text \<open>
  Lines 243-253: the value of \<open>jsonInfo.type\<close> once the type of an object without a usable
  \<open>@type\<close> has been inferred from the enclosing property.
\<close>

definition resolveType :: "dtParser \<Rightarrow> dtContext \<Rightarrow> jsonInfo \<Rightarrow> typeValue" where
  "resolveType parser context ji =
     (if \<not> truthyType (jsonType ji) then
        (case getIdFromShortName parser context (lastKey ji) of
           None \<Rightarrow> jsonType ji
         | Some i \<Rightarrow>
             if i = [] then jsonType ji
             else
               (case getTypesFromId parser context i of
                  [v] \<Rightarrow>
                    if v \<noteq> ''Interface'' \<and> v \<noteq> ''CapabilityModel'' then TypeString v
                    else jsonType ji
                | _ \<Rightarrow> jsonType ji))
      else jsonType ji)"

text \<open>
  Lines 267-287.  \<open>completionObject\<close> is a plain JavaScript object, \<^verbatim>\<open>{}\<close>, used as a
  dictionary from labels to objects \<^verbatim>\<open>{required, type}\<close>.  A plain object is not an empty
  dictionary: reading a key that it does not own goes on to its prototype, which at first
  is \<open>Object.prototype\<close>.  The model keeps the own properties in the order of their
  creation, and the prototype: \<open>None\<close> for \<open>Object.prototype\<close>, or the object
  \<^verbatim>\<open>{required, type}\<close> that an assignment to the key \<^verbatim>\<open>__proto__\<close> has put in its place
  (the prototype of that object is \<open>Object.prototype\<close> again).
\<close>

type_synonym entry = "bool \<times> string option"

record completionObject =
  ownProperties :: "(string \<times> entry) list"
  prototype :: "entry option"

text \<open>The names of the members of \<open>Object.prototype\<close>.\<close>

definition objectPrototypeMembers :: "string list" where
  "objectPrototypeMembers =
     [''constructor'', ''__defineGetter__'', ''__defineSetter__'', ''hasOwnProperty'',
      ''__lookupGetter__'', ''__lookupSetter__'', ''isPrototypeOf'', ''propertyIsEnumerable'',
      ''toString'', ''valueOf'', ''__proto__'', ''toLocaleString'']"

text \<open>
  What \<^verbatim>\<open>completionObject[label]\<close> evaluates to: \<open>undefined\<close>; an object
  \<^verbatim>\<open>{required, type}\<close> (an own property, or the replaced prototype read through the getter
  \<^verbatim>\<open>__proto__\<close>); a member of \<open>Object.prototype\<close> (a function, or \<open>Object.prototype\<close>
  itself read through the getter \<^verbatim>\<open>__proto__\<close>), which is true and has neither \<open>required\<close> nor
  \<open>type\<close>; or, once the prototype has been replaced, its \<open>required\<close>, a boolean, and its
  \<open>type\<close>, a string.
\<close>

datatype jsValue =
    Undefined
  | EntryObject bool "string option"
  | PrototypeMember
  | BooleanValue bool
  | StringValue string

definition getProperty :: "completionObject \<Rightarrow> string \<Rightarrow> jsValue" where
  "getProperty obj l =
     (case map_of (ownProperties obj) l of
        Some (r, t) \<Rightarrow> EntryObject r t
      | None \<Rightarrow>
          (case prototype obj of
             Some (r, t) \<Rightarrow>
               if l = ''required'' then BooleanValue r
               else if l = ''type'' then
                 (case t of None \<Rightarrow> Undefined | Some s \<Rightarrow> StringValue s)
               else if l = ''__proto__'' then EntryObject r t
               else if l \<in> set objectPrototypeMembers then PrototypeMember
               else Undefined
           | None \<Rightarrow>
               if l \<in> set objectPrototypeMembers then PrototypeMember else Undefined))"

text \<open>
  The assignment \<^verbatim>\<open>completionObject[label] = {required, type}\<close>.  An own property keeps
  its place; the key \<^verbatim>\<open>__proto__\<close> runs the setter of \<open>Object.prototype\<close>, which replaces
  the prototype and creates no own property; any other key becomes the last own property.
\<close>

fun assign :: "(string \<times> entry) list \<Rightarrow> string \<Rightarrow> entry \<Rightarrow> (string \<times> entry) list" where
  "assign [] k v = [(k, v)]"
| "assign ((k', v') # own) k v =
     (if k' = k then (k, v) # own else (k', v') # assign own k v)"

definition setProperty :: "completionObject \<Rightarrow> string \<Rightarrow> entry \<Rightarrow> completionObject" where
  "setProperty obj l v =
     (if map_of (ownProperties obj) l \<noteq> None
      then obj \<lparr>ownProperties := assign (ownProperties obj) l v\<rparr>
      else if l = ''__proto__'' then obj \<lparr>prototype := Some v\<rparr>
      else obj \<lparr>ownProperties := assign (ownProperties obj) l v\<rparr>)"

text \<open>
  Lines 271-278, one round of the loop.  With \<open>cur\<close> for \<^verbatim>\<open>completionObject[label]\<close>, the
  new \<open>required\<close> is \<^verbatim>\<open>cur && cur.required || keyObject.required\<close> and the new \<open>type\<close> is
  \<^verbatim>\<open>cur ? cur.type : keyObject.type\<close>; a function, a boolean and a string have neither a
  \<open>required\<close> nor a \<open>type\<close>.
\<close>

definition mergedEntry :: "jsValue \<Rightarrow> keyObject \<Rightarrow> entry" where
  "mergedEntry cur keyObject =
     (case cur of
        Undefined \<Rightarrow> (required keyObject, type keyObject)
      | EntryObject r t \<Rightarrow> (r \<or> required keyObject, t)
      | PrototypeMember \<Rightarrow> (required keyObject, None)
      | BooleanValue b \<Rightarrow> (required keyObject, if b then None else type keyObject)
      | StringValue s \<Rightarrow> (required keyObject, if s \<noteq> [] then None else type keyObject))"

fun collect :: "keyObject list \<Rightarrow> completionObject \<Rightarrow> completionObject" where
  "collect [] obj = obj"
| "collect (keyObject # keyList) obj =
     collect keyList
       (setProperty obj (label keyObject)
          (mergedEntry (getProperty obj (label keyObject)) keyObject))"

text \<open>
  \<open>Object.keys\<close> lists the own keys that are array indices first, in ascending numeric
  order, and then the other keys in the order of their creation.  An array index is the
  decimal numeral, without a leading zero, of a number below \<open>2\<^sup>3\<^sup>2 - 1\<close>.
\<close>

definition digitValue :: "char \<Rightarrow> int" where
  "digitValue c = int (length (takeWhile (\<lambda>d. d \<noteq> c) ''0123456789''))"

definition indexValue :: "string \<Rightarrow> int" where
  "indexValue s = foldl (\<lambda>n c. 10 * n + digitValue c) 0 s"

definition isArrayIndex :: "string \<Rightarrow> bool" where
  "isArrayIndex s =
     (s \<noteq> [] \<and> list_all (\<lambda>c. c \<in> set ''0123456789'') s \<and>
      (s = ''0'' \<or> hd s \<noteq> CHR ''0'') \<and> indexValue s < 4294967295)"

definition objectKeysOrder :: "(string \<times> entry) list \<Rightarrow> (string \<times> entry) list" where
  "objectKeysOrder own =
     sort_key (\<lambda>p. indexValue (fst p)) (filter (\<lambda>p. isArrayIndex (fst p)) own) @
     filter (\<lambda>p. \<not> isArrayIndex (fst p)) own"

text \<open>Lines 267-287: the merged key list.\<close>

definition mergeKeyList :: "keyObject list \<Rightarrow> keyObject list" where
  "mergeKeyList keyList =
     map (\<lambda>(k, r, t). \<lparr>label = k, required = r, type = t\<rparr>)
       (objectKeysOrder
          (ownProperties (collect keyList \<lparr>ownProperties = [], prototype = None\<rparr>)))"

text \<open>The test of lines 255-256: a string that is not empty, or an array that is not empty.\<close>

definition usableType :: "typeValue \<Rightarrow> bool" where
  "usableType t =
     (case t of TypeUndefined \<Rightarrow> False | TypeString s \<Rightarrow> s \<noteq> [] | TypeArray ts \<Rightarrow> ts \<noteq> [])"

text \<open>The loop of lines 263-266: the typed properties of every type of the array, in order.\<close>

definition typedPropertiesOfTypes :: "dtParser \<Rightarrow> dtContext \<Rightarrow> string list \<Rightarrow> keyObject list" where
  "typedPropertiesOfTypes parser context ts =
     concat (map (getTypedPropertiesFromType parser context) ts)"

text \<open>Lines 239-307: the list \<open>completionKeyList\<close> handed to the editor.\<close>

definition keyCompletion :: "dtParser \<Rightarrow> dtContext \<Rightarrow> jsonInfo \<Rightarrow> keyObject list" where
  "keyCompletion parser context ji =
     (let t = resolveType parser context ji;
          root = (t = TypeString ''Interface'' \<or> t = TypeString ''CapabilityModel'');
          atContext =
            (if usableType t \<and> root \<and> ''@context'' \<notin> set (properties ji)
             then [\<lparr>label = ''@context'', required = True, type = None\<rparr>] else []);
          keyList =
            (if usableType t then
               (case t of
                  TypeArray ts \<Rightarrow> mergeKeyList (typedPropertiesOfTypes parser context ts)
                | TypeString s \<Rightarrow> getTypedPropertiesFromType parser context s
                | TypeUndefined \<Rightarrow> [])
             else [\<lparr>label = ''@type'', required = True, type = None\<rparr>]);
          atId =
            (if root \<and> ''@id'' \<notin> set (properties ji)
             then [\<lparr>label = ''@id'', required = True, type = Some ''string''\<rparr>] else [])
      in atContext @ filter (\<lambda>k. label k \<notin> set (properties ji)) keyList @ atId)"

subsection \<open>\<open>provideCompletionItems\<close> (extension.ts, lines 187-319)\<close>

text \<open>
  The result is \<open>None\<close> where the provider returns \<open>null\<close>, and otherwise the list from which
  \<open>getCompletionItemsFromArray\<close> makes the items of the \<open>vscode.CompletionList\<close>: strings at
  a value position, key objects at a key position.
\<close>

datatype completionList = ValueItems "string list" | KeyItems "keyObject list"

text \<open>Lines 197-202: the ontology context that serves a context type.\<close>

definition selectContext :: "string \<Rightarrow> dtContext" where
  "selectContext contextType =
     (if contextType = ''Interface'' then dtInterface else dtCapabilityModel)"

definition provideCompletionItems ::
  "dtParser \<Rightarrow> jsonParser \<Rightarrow> textDocument \<Rightarrow> position \<Rightarrow> completionList option" where
  "provideCompletionItems parser json document pos =
     (let documentType = getDocumentType document;
          info = getJsonInfoAtPosition json document pos;
          contextType = getDigitalTwinContextTypeAtPosition json document pos documentType;
          context = selectContext contextType
      in case info of
           None \<Rightarrow> None
         | Some ji \<Rightarrow>
             if isValue ji
             then map_option ValueItems (valueCompletion parser contextType context ji)
             else Some (KeyItems (keyCompletion parser context ji)))"


subsection \<open>Vocabulary for the statements about completion\<close>

text \<open>
  The context type and the ontology context of a request, as the first lines of
  \<open>provideCompletionItems\<close> compute them.
\<close>

definition contextTypeAt :: "jsonParser \<Rightarrow> textDocument \<Rightarrow> position \<Rightarrow> string" where
  "contextTypeAt json document pos =
     getDigitalTwinContextTypeAtPosition json document pos (getDocumentType document)"

definition contextAt :: "jsonParser \<Rightarrow> textDocument \<Rightarrow> position \<Rightarrow> dtContext" where
  "contextAt json document pos = selectContext (contextTypeAt json document pos)"

text \<open>
  Of the entries of a key list that carry a given label: whether one of them is required,
  the \<open>type\<close> of the first of them, and the first \<open>type\<close> among them that is not missing.
\<close>

definition anyRequired :: "string \<Rightarrow> keyObject list \<Rightarrow> bool" where
  "anyRequired l keyList = list_ex (\<lambda>k. label k = l \<and> required k) keyList"

definition typeOfFirst :: "string \<Rightarrow> keyObject list \<Rightarrow> string option" where
  "typeOfFirst l keyList =
     (case find (\<lambda>k. label k = l) keyList of None \<Rightarrow> None | Some k \<Rightarrow> type k)"

definition firstDeclaredType :: "string \<Rightarrow> keyObject list \<Rightarrow> string option" where
  "firstDeclaredType l keyList =
     (case find (\<lambda>k. label k = l \<and> type k \<noteq> None) keyList of
        None \<Rightarrow> None
      | Some k \<Rightarrow> type k)"


section \<open>The hover provider (extension.ts, lines 158-177)\<close>

definition provideHover ::
  "dtParser \<Rightarrow> jsonParser \<Rightarrow> textDocument \<Rightarrow> position \<Rightarrow> string option" where
  "provideHover parser json document pos =
     (let hoverText =
            (case getIdAtPosition json document pos dtInterface of
               None \<Rightarrow> None
             | Some i \<Rightarrow>
                 if i = [] then None
                 else if i = ''@id'' then
                   Some ''An identifier for Digital Twin capability model or interface.''
                 else if i = ''@type'' then
                   Some ''The type of Digital Twin meta model object.''
                 else if i = ''@context'' then
                   Some ''The context for Digital Twin capability model or interface.''
                 else getCommentFromId parser i)
      in if truthy hoverText then hoverText else None)"


section \<open>Revalidation of diagnostics (extension.ts, lines 68-149)\<close>

subsection \<open>The diagnostic collection\<close>

record diagnostic =
  span :: "nat \<times> nat"
  message :: string
  severity :: string

text \<open>
  The diagnostics of every document, by the path of its uri, and the validation walk that
  computes the diagnostics of one document.  The walk is a parameter of the model.
\<close>

type_synonym diagnosticCollection = "string \<Rightarrow> diagnostic list"

type_synonym validator = "dtContext \<Rightarrow> textDocument \<Rightarrow> diagnostic list"

text \<open>
  Modelled from the spec: \<open>DigitalTwinDiagnostic.update\<close> and \<open>DigitalTwinDiagnostic.delete\<close>,
  whose class is not among the sources.  The spec (4.5): "\<open>update(context, document)\<close>
  replaces that document's diagnostic set; \<open>delete(document)\<close> clears it".
\<close>

definition update ::
  "validator \<Rightarrow> dtContext \<Rightarrow> textDocument \<Rightarrow> diagnosticCollection \<Rightarrow> diagnosticCollection" where
  "update validate context document ds = ds (fsPath document := validate context document)"

definition delete :: "textDocument \<Rightarrow> diagnosticCollection \<Rightarrow> diagnosticCollection" where
  "delete document ds = ds (fsPath document := [])"

text \<open>
  The four lines that every handler and every timer runs to revalidate a document (lines
  73-78, 90-95, 110-115 and 130-135).
\<close>

definition revalidate ::
  "validator \<Rightarrow> textDocument \<Rightarrow> diagnosticCollection \<Rightarrow> diagnosticCollection" where
  "revalidate validate document ds =
     (if getDocumentType document = ''Interface''
      then update validate dtInterface document ds
      else update validate dtCapabilityModel document ds)"

subsection \<open>Timers and the state of the extension\<close>

text \<open>
  A pending timer of the event loop: the handle that \<open>setTimeout\<close> returned, its delay and
  its callback.  The callback of a timer set by the open handler revalidates the document;
  the callback of a timer set by the change handler revalidates it and then sets
  \<open>waitingForUpdatingDiagnostic\<close> to \<open>null\<close>.  A callback holds the document object of the
  event that set the timer, and reads it when the timer fires; the editor keeps that object
  current.  So a callback is modelled by the path of its document, and the state holds,
  next to the variables of \<open>activate\<close>, the text that the editor has for every path.
\<close>

datatype callback = OpenCallback string | ChangeCallback string

record timer =
  handle :: nat
  delay :: nat
  callback :: callback

record extensionState =
  waitingForUpdatingDiagnostic :: "nat option"
  timers :: "timer list"
  nextHandle :: nat
  diagnostics :: diagnosticCollection
  liveText :: "string \<Rightarrow> string"

text \<open>
  The document object of a path as it is now, and the editor's update of the object that
  an event carries: the event shows the document as it is when the event happens.
\<close>

definition liveDocument :: "extensionState \<Rightarrow> string \<Rightarrow> textDocument" where
  "liveDocument s path = \<lparr>fsPath = path, getText = liveText s path\<rparr>"

definition noteText :: "textDocument \<Rightarrow> extensionState \<Rightarrow> extensionState" where
  "noteText document s = s \<lparr>liveText := (liveText s) (fsPath document := getText document)\<rparr>"

definition setTimeout :: "callback \<Rightarrow> nat \<Rightarrow> extensionState \<Rightarrow> extensionState" where
  "setTimeout cb ms s =
     s \<lparr>timers := timers s @ [\<lparr>handle = nextHandle s, delay = ms, callback = cb\<rparr>],
        nextHandle := Suc (nextHandle s)\<rparr>"

definition clearTimeout :: "nat \<Rightarrow> extensionState \<Rightarrow> extensionState" where
  "clearTimeout h s = s \<lparr>timers := filter (\<lambda>t. handle t \<noteq> h) (timers s)\<rparr>"

text \<open>Lines 68-82: the state in which \<open>activate\<close> leaves the extension.\<close>

definition activate :: "validator \<Rightarrow> textDocument option \<Rightarrow> extensionState" where
  "activate validate activeEditor =
     \<lparr>waitingForUpdatingDiagnostic = None,
      timers = [],
      nextHandle = 0,
      diagnostics =
        (case activeEditor of
           None \<Rightarrow> (\<lambda>p. [])
         | Some document \<Rightarrow>
             if isMetaModelFile document then revalidate validate document (\<lambda>p. [])
             else (\<lambda>p. [])),
      liveText =
        (case activeEditor of
           None \<Rightarrow> (\<lambda>p. [])
         | Some document \<Rightarrow> (\<lambda>p. []) (fsPath document := getText document))\<rparr>"

text \<open>Lines 84-97.\<close>

definition onDidOpenTextDocument :: "textDocument \<Rightarrow> extensionState \<Rightarrow> extensionState" where
  "onDidOpenTextDocument document s =
     (if \<not> isMetaModelFile document then s
      else (setTimeout (OpenCallback (fsPath document)) 0 s)
             \<lparr>waitingForUpdatingDiagnostic := Some (nextHandle s)\<rparr>)"

text \<open>Lines 99-118.  A timer handle is an object, so the test of line 105 is a test for \<open>null\<close>.\<close>

definition onDidChangeTextDocument :: "textDocument \<Rightarrow> extensionState \<Rightarrow> extensionState" where
  "onDidChangeTextDocument document s =
     (if \<not> isMetaModelFile document then s
      else
        (let s1 = (case waitingForUpdatingDiagnostic s of
                     None \<Rightarrow> s
                   | Some h \<Rightarrow> clearTimeout h s)
         in (setTimeout (ChangeCallback (fsPath document)) 500 s1)
              \<lparr>waitingForUpdatingDiagnostic := Some (nextHandle s1)\<rparr>))"

text \<open>Lines 120-136.\<close>

definition onDidChangeActiveTextEditor ::
  "validator \<Rightarrow> textDocument option \<Rightarrow> extensionState \<Rightarrow> extensionState" where
  "onDidChangeActiveTextEditor validate editor s =
     (case editor of
        None \<Rightarrow> s
      | Some document \<Rightarrow>
          if \<not> isMetaModelFile document then s
          else s \<lparr>diagnostics := revalidate validate document (diagnostics s)\<rparr>)"

text \<open>Lines 138-149: both branches of the handler delete the diagnostics.\<close>

definition onDidCloseTextDocument :: "textDocument \<Rightarrow> extensionState \<Rightarrow> extensionState" where
  "onDidCloseTextDocument document s =
     (if \<not> isMetaModelFile document then s
      else if getDocumentType document = ''Interface''
      then s \<lparr>diagnostics := delete document (diagnostics s)\<rparr>
      else s \<lparr>diagnostics := delete document (diagnostics s)\<rparr>)"

text \<open>
  The event loop runs the callback of a pending timer and forgets the timer; a handle that
  is not pending (the timer was cleared, or has fired) runs nothing.  The callback
  validates its document as the document is when the timer fires.  Time is not part of
  the model: any pending timer may be the next to fire, so a statement about all lists of
  events covers every schedule of the event loop.
\<close>

definition runCallback :: "validator \<Rightarrow> callback \<Rightarrow> extensionState \<Rightarrow> extensionState" where
  "runCallback validate cb s =
     (case cb of
        OpenCallback path \<Rightarrow>
          s \<lparr>diagnostics := revalidate validate (liveDocument s path) (diagnostics s)\<rparr>
      | ChangeCallback path \<Rightarrow>
          s \<lparr>diagnostics := revalidate validate (liveDocument s path) (diagnostics s),
             waitingForUpdatingDiagnostic := None\<rparr>)"

definition timerFires :: "validator \<Rightarrow> nat \<Rightarrow> extensionState \<Rightarrow> extensionState" where
  "timerFires validate h s =
     (case find (\<lambda>t. handle t = h) (timers s) of
        None \<Rightarrow> s
      | Some t \<Rightarrow> runCallback validate (callback t) (clearTimeout h s))"

datatype event =
    DidOpenTextDocument textDocument
  | DidChangeTextDocument textDocument
  | DidChangeActiveTextEditor "textDocument option"
  | DidCloseTextDocument textDocument
  | TimerFires nat

fun step :: "validator \<Rightarrow> event \<Rightarrow> extensionState \<Rightarrow> extensionState" where
  "step validate (DidOpenTextDocument document) s =
     onDidOpenTextDocument document (noteText document s)"
| "step validate (DidChangeTextDocument document) s =
     onDidChangeTextDocument document (noteText document s)"
| "step validate (DidChangeActiveTextEditor editor) s =
     onDidChangeActiveTextEditor validate editor
       (case editor of None \<Rightarrow> s | Some document \<Rightarrow> noteText document s)"
| "step validate (DidCloseTextDocument document) s =
     onDidCloseTextDocument document (noteText document s)"
| "step validate (TimerFires h) s = timerFires validate h s"

fun run :: "validator \<Rightarrow> extensionState \<Rightarrow> event list \<Rightarrow> extensionState" where
  "run validate s [] = s"
| "run validate s (e # es) = run validate (step validate e s) es"

text \<open>The pending timers whose callback revalidates the document of a given path.\<close>

definition callbackPath :: "callback \<Rightarrow> string" where
  "callbackPath cb = (case cb of OpenCallback path \<Rightarrow> path | ChangeCallback path \<Rightarrow> path)"

definition pendingFor :: "string \<Rightarrow> extensionState \<Rightarrow> timer list" where
  "pendingFor path s = filter (\<lambda>t. callbackPath (callback t) = path) (timers s)"

subsection \<open>Vocabulary for the statements about revalidation\<close>

text \<open>
  At most one timer is pending, and \<open>waitingForUpdatingDiagnostic\<close> refers to it.
\<close>

definition singleTimer :: "extensionState \<Rightarrow> bool" where
  "singleTimer s =
     (case timers s of
        [] \<Rightarrow> True
      | [t] \<Rightarrow> waitingForUpdatingDiagnostic s = Some (handle t)
      | _ \<Rightarrow> False)"

text \<open>
  A list of events, run from a state, in which a metamodel document is opened only at
  moments when no timer is pending.
\<close>

fun opensOnlyWhenIdle :: "validator \<Rightarrow> extensionState \<Rightarrow> event list \<Rightarrow> bool" where
  "opensOnlyWhenIdle validate s [] = True"
| "opensOnlyWhenIdle validate s (e # es) =
     ((case e of
         DidOpenTextDocument document \<Rightarrow> isMetaModelFile document \<longrightarrow> timers s = []
       | _ \<Rightarrow> True) \<and>
      opensOnlyWhenIdle validate (step validate e s) es)"


section \<open>Completion with collaborators that may fail\<close>
















section \<open>Sample inputs\<close>

text \<open>
  Two documents, a small ontology and a JSON parser that reports a given request; the
  context type it reports is the type of the document.
\<close>

definition thermostat :: textDocument where
  \<open>thermostat =
     \<lparr>fsPath = ''/models/thermostat.interface.json'',
      getText = ''{"@type": "Interface", "contents": [{"@type": ["Telemetry", "Property"], "name": "t"}]}''\<rparr>\<close>

definition hub :: textDocument where
  \<open>hub =
     \<lparr>fsPath = ''/models/hub.capabilitymodel.json'',
      getText = ''{"@type": "CapabilityModel"}''\<rparr>\<close>

definition sampleOntology :: dtParser where
  "sampleOntology =
     \<lparr>getIdFromShortName =
        (\<lambda>context shortName.
           if shortName = Some ''contents'' then Some ''http://azureiot.com/v0/contents''
           else if shortName = Some ''schema'' then Some ''http://azureiot.com/v0/schema''
           else None),
      getTypesFromId =
        (\<lambda>context i.
           if i = ''http://azureiot.com/v0/contents'' then [''Telemetry'', ''Property'']
           else if i = ''http://azureiot.com/v0/schema'' then [''Object'']
           else []),
      getTypedPropertiesFromType =
        (\<lambda>context t.
           if t = ''Interface'' then
             [\<lparr>label = ''contents'', required = False, type = None\<rparr>,
              \<lparr>label = ''displayName'', required = False, type = Some ''string''\<rparr>]
           else if t = ''Telemetry'' then
             [\<lparr>label = ''name'', required = True, type = Some ''string''\<rparr>,
              \<lparr>label = ''schema'', required = False, type = None\<rparr>,
              \<lparr>label = ''unit'', required = False, type = None\<rparr>]
           else if t = ''Property'' then
             [\<lparr>label = ''name'', required = True, type = Some ''string''\<rparr>,
              \<lparr>label = ''schema'', required = True, type = Some ''string''\<rparr>,
              \<lparr>label = ''writable'', required = False, type = Some ''boolean''\<rparr>]
           else []),
      getStringValuesFromShortName =
        (\<lambda>context k. if k = ''unit'' then [''celsius'', ''fahrenheit''] else []),
      getCommentFromId =
        (\<lambda>i. if i = ''http://azureiot.com/v0/contents''
             then Some ''The capabilities of an interface.'' else None)\<rparr>"

definition draft :: textDocument where
  "draft = \<lparr>fsPath = ''/models/draft.interface.json'', getText = ''{}''\<rparr>"

definition readme :: textDocument where
  "readme = \<lparr>fsPath = ''/README.md'', getText = ''Models of the devices.''\<rparr>"

text \<open>A validation walk that misses the \<open>@id\<close> of the empty object.\<close>

definition sampleValidator :: validator where
  "sampleValidator context document =
     (if getText document = ''{}''
      then [\<lparr>span = (0, 2), message = ''Missing required property @id'',
             severity = ''Error''\<rparr>]
      else [])"

definition parserReporting :: "jsonInfo option \<Rightarrow> string option \<Rightarrow> jsonParser" where
  "parserReporting info ident =
     \<lparr>getJsonInfoAtPosition = (\<lambda>document pos. info),
      getDigitalTwinContextTypeAtPosition = (\<lambda>document pos documentType. documentType),
      getIdAtPosition = (\<lambda>document pos context. ident)\<rparr>"

text \<open>A JSON parser that reports a given request in a given context type.\<close>

definition parserInContext :: "string \<Rightarrow> jsonInfo option \<Rightarrow> jsonParser" where
  "parserInContext contextType info =
     \<lparr>getJsonInfoAtPosition = (\<lambda>document pos. info),
      getDigitalTwinContextTypeAtPosition = (\<lambda>document pos documentType. contextType),
      getIdAtPosition = (\<lambda>document pos context. None)\<rparr>"



definition keyRequest :: "string option \<Rightarrow> typeValue \<Rightarrow> string list \<Rightarrow> jsonInfo" where
  "keyRequest parent t present =
     \<lparr>isValue = False, key = [], lastKey = parent, jsonType = t, properties = present\<rparr>"

definition valueRequest :: "string \<Rightarrow> string option \<Rightarrow> string list \<Rightarrow> jsonInfo" where
  "valueRequest k parent present =
     \<lparr>isValue = True, key = k, lastKey = parent, jsonType = TypeUndefined,
      properties = present\<rparr>"


section \<open>Properties of the completion provider\<close>

lemmas sample_defs =
  thermostat_def hub_def sampleOntology_def parserReporting_def keyRequest_def valueRequest_def
  provideCompletionItems_def keyCompletion_def valueCompletion_def resolveType_def
  usableType_def truthyType_def truthy_def typedPropertiesOfTypes_def mergeKeyList_def
  selectContext_def getDocumentType_def endsWith_def contextAt_def contextTypeAt_def
  anyRequired_def typeOfFirst_def firstDeclaredType_def
  getProperty_def setProperty_def mergedEntry_def objectPrototypeMembers_def
  objectKeysOrder_def isArrayIndex_def

lemma provideCompletionItems_key:
  assumes "getJsonInfoAtPosition json document pos = Some ji" and "\<not> isValue ji"
  shows "provideCompletionItems parser json document pos =
           Some (KeyItems (keyCompletion parser (contextAt json document pos) ji))"
  using assms
  by (simp add: provideCompletionItems_def contextAt_def contextTypeAt_def Let_def)

lemma provideCompletionItems_value:
  assumes "getJsonInfoAtPosition json document pos = Some ji" and "isValue ji"
  shows "provideCompletionItems parser json document pos =
           map_option ValueItems
             (valueCompletion parser (contextTypeAt json document pos)
                (contextAt json document pos) ji)"
  using assms
  by (simp add: provideCompletionItems_def contextAt_def contextTypeAt_def Let_def)

subsection \<open>Merging the key lists of several types\<close>

lemma map_of_assign: "map_of (assign own k v) = (map_of own)(k \<mapsto> v)"
  by (induction own k v rule: assign.induct) (auto simp: fun_eq_iff)

lemma keys_assign:
  "map fst (assign own k v) = (if k \<in> fst ` set own then map fst own else map fst own @ [k])"
  by (induction own k v rule: assign.induct) auto

lemma proto_is_member: "''__proto__'' \<in> set objectPrototypeMembers"
  by (simp add: objectPrototypeMembers_def)

text \<open>
  One round of the loop, for a label that names no member of \<open>Object.prototype\<close> and an
  object whose prototype has not been replaced.
\<close>

lemma round_plain:
  assumes "prototype obj = None" and "label k \<notin> set objectPrototypeMembers"
  shows "setProperty obj (label k) (mergedEntry (getProperty obj (label k)) k) =
           obj \<lparr>ownProperties :=
                  assign (ownProperties obj) (label k)
                    (case map_of (ownProperties obj) (label k) of
                       None \<Rightarrow> (required k, type k)
                     | Some (r, t) \<Rightarrow> (r \<or> required k, t))\<rparr>"
proof -
  have "label k \<noteq> ''__proto__''"
    using assms(2) proto_is_member by metis
  then show ?thesis
    using assms
    by (auto simp: setProperty_def getProperty_def mergedEntry_def split: option.splits)
qed

lemma collect_prototype:
  assumes "\<forall>k\<in>set keyList. label k \<notin> set objectPrototypeMembers" and "prototype obj = None"
  shows "prototype (collect keyList obj) = None"
  using assms by (induction keyList arbitrary: obj) (simp_all add: round_plain)

lemma distinct_collect:
  assumes "\<forall>k\<in>set keyList. label k \<notin> set objectPrototypeMembers" and "prototype obj = None"
    and "distinct (map fst (ownProperties obj))"
  shows "distinct (map fst (ownProperties (collect keyList obj)))"
  using assms by (induction keyList arbitrary: obj) (simp_all add: round_plain keys_assign)

lemma anyRequired_Cons:
  "anyRequired l (k # keyList) \<longleftrightarrow> (label k = l \<and> required k) \<or> anyRequired l keyList"
  by (simp add: anyRequired_def)

lemma map_of_collect:
  assumes "\<forall>k\<in>set keyList. label k \<notin> set objectPrototypeMembers" and "prototype obj = None"
  shows "map_of (ownProperties (collect keyList obj)) l =
     (case map_of (ownProperties obj) l of
        Some (r, t) \<Rightarrow> Some (r \<or> anyRequired l keyList, t)
      | None \<Rightarrow>
          (case find (\<lambda>k. label k = l) keyList of
             None \<Rightarrow> None
           | Some k0 \<Rightarrow> Some (anyRequired l keyList, type k0)))"
  using assms
proof (induction keyList arbitrary: obj)
  case Nil
  then show ?case by (simp add: anyRequired_def split: option.splits)
next
  case (Cons a keyList)
  let ?obj = "obj \<lparr>ownProperties :=
                  assign (ownProperties obj) (label a)
                    (case map_of (ownProperties obj) (label a) of
                       None \<Rightarrow> (required a, type a)
                     | Some (r, t) \<Rightarrow> (r \<or> required a, t))\<rparr>"
  have r: "collect (a # keyList) obj = collect keyList ?obj"
    using Cons.prems by (simp add: round_plain)
  have "map_of (ownProperties (collect keyList ?obj)) l =
     (case map_of (ownProperties ?obj) l of
        Some (r, t) \<Rightarrow> Some (r \<or> anyRequired l keyList, t)
      | None \<Rightarrow>
          (case find (\<lambda>k. label k = l) keyList of
             None \<Rightarrow> None
           | Some k0 \<Rightarrow> Some (anyRequired l keyList, type k0)))"
    using Cons.prems by (intro Cons.IH) simp_all
  then show ?case
    unfolding r
    by (auto simp: map_of_assign anyRequired_Cons split: option.splits)
qed

lemma objectKeysOrder_set: "set (objectKeysOrder own) = set own"
  by (auto simp: objectKeysOrder_def)

lemma objectKeysOrder_distinct:
  assumes "distinct (map fst own)"
  shows "distinct (map fst (objectKeysOrder own))"
proof -
  let ?A = "filter (\<lambda>p. isArrayIndex (fst p)) own"
  let ?B = "filter (\<lambda>p. \<not> isArrayIndex (fst p)) own"
  let ?S = "sort_key (\<lambda>p. indexValue (fst p)) ?A"
  have d: "distinct own" and i: "inj_on fst (set own)"
    using assms by (simp_all add: distinct_map)
  have "inj_on fst (set ?S)"
    using i by (auto simp: inj_on_def)
  moreover have "distinct ?S"
    using d by simp
  ultimately have a: "distinct (map fst ?S)"
    by (simp add: distinct_map)
  have "inj_on fst (set ?B)"
    using i by (auto simp: inj_on_def)
  then have b: "distinct (map fst ?B)"
    using d by (simp add: distinct_map)
  have "fst ` set ?S \<inter> fst ` set ?B = {}"
    by auto
  with a b show ?thesis
    by (simp add: objectKeysOrder_def)
qed

lemma mergeKeyList_distinct:
  assumes "\<forall>k\<in>set keyList. label k \<notin> set objectPrototypeMembers"
  shows "distinct (map label (mergeKeyList keyList))"
proof -
  let ?own = "ownProperties (collect keyList \<lparr>ownProperties = [], prototype = None\<rparr>)"
  have "map label (mergeKeyList keyList) = map fst (objectKeysOrder ?own)"
    by (simp add: mergeKeyList_def case_prod_unfold comp_def)
  moreover have "distinct (map fst ?own)"
    using assms by (intro distinct_collect) simp_all
  ultimately show ?thesis
    by (simp add: objectKeysOrder_distinct)
qed

lemma mergeKeyList_entry:
  assumes "\<forall>k\<in>set keyList. label k \<notin> set objectPrototypeMembers"
  shows "k \<in> set (mergeKeyList keyList) \<longleftrightarrow>
     (\<exists>k0. find (\<lambda>e. label e = label k) keyList = Some k0) \<and>
     required k = anyRequired (label k) keyList \<and>
     type k = typeOfFirst (label k) keyList"
proof -
  let ?obj = "collect keyList \<lparr>ownProperties = [], prototype = None\<rparr>"
  have d: "distinct (map fst (ownProperties ?obj))"
    using assms by (intro distinct_collect) simp_all
  have m: "map_of (ownProperties ?obj) (label k) =
             (case find (\<lambda>e. label e = label k) keyList of
                None \<Rightarrow> None
              | Some k0 \<Rightarrow> Some (anyRequired (label k) keyList, type k0))"
    using assms by (subst map_of_collect) simp_all
  have "k \<in> set (mergeKeyList keyList) \<longleftrightarrow>
          (label k, required k, type k) \<in> set (ownProperties ?obj)"
    by (cases k) (force simp: mergeKeyList_def objectKeysOrder_set)
  also have "\<dots> \<longleftrightarrow> map_of (ownProperties ?obj) (label k) = Some (required k, type k)"
    using d by simp
  also have "\<dots> \<longleftrightarrow>
     (\<exists>k0. find (\<lambda>e. label e = label k) keyList = Some k0) \<and>
     required k = anyRequired (label k) keyList \<and>
     type k = typeOfFirst (label k) keyList"
    by (auto simp: m typeOfFirst_def split: option.splits)
  finally show ?thesis .
qed

lemma mergeKeyList_labels:
  assumes "\<forall>k\<in>set keyList. label k \<notin> set objectPrototypeMembers"
  shows "label ` set (mergeKeyList keyList) = label ` set keyList"
proof -
  have "l \<in> label ` set (mergeKeyList keyList) \<longleftrightarrow> l \<in> label ` set keyList" for l
  proof
    assume "l \<in> label ` set (mergeKeyList keyList)"
    then obtain k where "k \<in> set (mergeKeyList keyList)" "label k = l" by auto
    then obtain k0 where "find (\<lambda>e. label e = l) keyList = Some k0"
      by (auto simp: mergeKeyList_entry [OF assms])
    then show "l \<in> label ` set keyList"
      by (auto simp: find_Some_iff)
  next
    assume "l \<in> label ` set keyList"
    then have "find (\<lambda>e. label e = l) keyList \<noteq> None"
      by (auto simp: find_None_iff)
    then obtain k0 where k0: "find (\<lambda>e. label e = l) keyList = Some k0" by auto
    let ?k = "\<lparr>label = l, required = anyRequired l keyList, type = typeOfFirst l keyList\<rparr>"
    have "?k \<in> set (mergeKeyList keyList)"
      using k0 by (simp add: mergeKeyList_entry [OF assms])
    then show "l \<in> label ` set (mergeKeyList keyList)"
      by force
  qed
  then show ?thesis by blast
qed

text \<open>
  C1, as the code has it.  At a key position in an object whose type is a non-empty array
  of type ids, when no label among the typed properties of those types names a member of
  \<open>Object.prototype\<close>: the candidates are the typed properties of all those types, less the
  labels that the object already has as keys, one entry per label; the entry is required
  exactly when some entry with that label is, and its range type is the \<open>type\<close> of the
  first entry with that label, which is missing when that first entry declares none.
\<close>

theorem array_type_completion:
  assumes "getJsonInfoAtPosition json document pos = Some ji"
    and "\<not> isValue ji"
    and "jsonType ji = TypeArray ts"
    and "ts \<noteq> []"
    and "\<forall>k\<in>set (typedPropertiesOfTypes parser (contextAt json document pos) ts).
           label k \<notin> set objectPrototypeMembers"
  shows "\<exists>items.
           provideCompletionItems parser json document pos = Some (KeyItems items) \<and>
           distinct (map label items) \<and>
           label ` set items =
             label ` set (typedPropertiesOfTypes parser (contextAt json document pos) ts)
               - set (properties ji) \<and>
           (\<forall>k\<in>set items.
              required k =
                anyRequired (label k)
                  (typedPropertiesOfTypes parser (contextAt json document pos) ts) \<and>
              type k =
                typeOfFirst (label k)
                  (typedPropertiesOfTypes parser (contextAt json document pos) ts))"
proof -
  let ?all = "typedPropertiesOfTypes parser (contextAt json document pos) ts"
  let ?items = "filter (\<lambda>k. label k \<notin> set (properties ji)) (mergeKeyList ?all)"
  have t: "resolveType parser (contextAt json document pos) ji = TypeArray ts"
    using assms(3) by (simp add: resolveType_def truthyType_def)
  have "keyCompletion parser (contextAt json document pos) ji = ?items"
    using assms(4) by (simp add: keyCompletion_def t usableType_def)
  then have r: "provideCompletionItems parser json document pos = Some (KeyItems ?items)"
    using provideCompletionItems_key [OF assms(1,2)] by simp
  have d: "distinct (map label ?items)"
    using mergeKeyList_distinct [OF assms(5)] by (simp add: distinct_map_filter)
  have "label ` set ?items = label ` set (mergeKeyList ?all) - set (properties ji)"
    by auto
  then have l: "label ` set ?items = label ` set ?all - set (properties ji)"
    by (simp only: mergeKeyList_labels [OF assms(5)])
  have e: "\<forall>k\<in>set ?items.
             required k = anyRequired (label k) ?all \<and> type k = typeOfFirst (label k) ?all"
    by (simp add: mergeKeyList_entry [OF assms(5)])
  from r d l e show ?thesis by blast
qed

theorem array_type_completion_witness:
  "getJsonInfoAtPosition
     (parserReporting
        (Some (keyRequest (Some ''contents'') (TypeArray [''Telemetry'', ''Property''])
                 [''@type'', ''name''])) None)
     thermostat (0, 60)
     = Some (keyRequest (Some ''contents'') (TypeArray [''Telemetry'', ''Property''])
               [''@type'', ''name'']) \<and>
   list_all (\<lambda>k. label k \<notin> set objectPrototypeMembers)
     (typedPropertiesOfTypes sampleOntology dtInterface [''Telemetry'', ''Property'']) \<and>
   (\<exists>items.
      provideCompletionItems sampleOntology
        (parserReporting
           (Some (keyRequest (Some ''contents'') (TypeArray [''Telemetry'', ''Property''])
                    [''@type'', ''name''])) None)
        thermostat (0, 60) = Some (KeyItems items) \<and>
      distinct (map label items) \<and>
      label ` set items = {''schema'', ''unit'', ''writable''})"
  using array_type_completion
    [of "parserReporting
           (Some (keyRequest (Some ''contents'') (TypeArray [''Telemetry'', ''Property''])
                    [''@type'', ''name''])) None"
        thermostat "(0, 60)"
        "keyRequest (Some ''contents'') (TypeArray [''Telemetry'', ''Property''])
           [''@type'', ''name'']"
        "[''Telemetry'', ''Property'']" sampleOntology]
  by (simp add: sample_defs)

text \<open>
  The claim C1 gives the merged entry the first range type that is not missing.  In the
  sample ontology \<open>Telemetry\<close> lists \<open>schema\<close> without a range type and \<open>Property\<close> lists
  it with the range type \<open>string\<close>: the candidate \<open>schema\<close> has no range type, where the
  first declared one is \<open>string\<close>.
\<close>

theorem array_type_first_declared_counterexample:
  "provideCompletionItems sampleOntology
     (parserReporting
        (Some (keyRequest (Some ''contents'') (TypeArray [''Telemetry'', ''Property''])
                 [''@type'', ''name''])) None)
     thermostat (0, 60)
   = Some (KeyItems
       [\<lparr>label = ''schema'', required = True, type = None\<rparr>,
        \<lparr>label = ''unit'', required = False, type = None\<rparr>,
        \<lparr>label = ''writable'', required = False, type = Some ''boolean''\<rparr>]) \<and>
   firstDeclaredType ''schema''
     (typedPropertiesOfTypes sampleOntology dtInterface [''Telemetry'', ''Property''])
   = Some ''string''"
  by (simp add: sample_defs)

subsection \<open>Key positions\<close>

text \<open>
  C4.  At a key position no candidate carries a label that the enclosing object already
  has as a key.  So a key that was suggested and has been inserted, and is therefore among
  the keys that the next request reports, is no candidate of the next request.
\<close>

theorem key_completion_no_present_key:
  assumes "getJsonInfoAtPosition json document pos = Some ji"
    and "\<not> isValue ji"
  shows "\<exists>items.
           provideCompletionItems parser json document pos = Some (KeyItems items) \<and>
           label ` set items \<inter> set (properties ji) = {}"
proof -
  let ?items = "keyCompletion parser (contextAt json document pos) ji"
  have "label k \<notin> set (properties ji)" if "k \<in> set ?items" for k
    using that by (auto simp: keyCompletion_def Let_def split: if_splits)
  then have "label ` set ?items \<inter> set (properties ji) = {}"
    by blast
  then show ?thesis
    using provideCompletionItems_key [OF assms] by simp
qed

theorem key_completion_no_present_key_witness:
  "\<not> isValue (keyRequest None (TypeString ''Interface'') [''@type'', ''@id'', ''contents'']) \<and>
   provideCompletionItems sampleOntology
     (parserReporting
        (Some (keyRequest None (TypeString ''Interface'') [''@type'', ''@id'', ''contents'']))
        None)
     thermostat (0, 22)
   = Some (KeyItems
       [\<lparr>label = ''@context'', required = True, type = None\<rparr>,
        \<lparr>label = ''displayName'', required = False, type = Some ''string''\<rparr>]) \<and>
   label ` set [\<lparr>label = ''@context'', required = True, type = None\<rparr>,
                \<lparr>label = ''displayName'', required = False, type = Some ''string''\<rparr>]
     \<inter> set (properties
              (keyRequest None (TypeString ''Interface'') [''@type'', ''@id'', ''contents'']))
   = {}"
  using key_completion_no_present_key
    [of "parserReporting
           (Some (keyRequest None (TypeString ''Interface'') [''@type'', ''@id'', ''contents'']))
           None"
        thermostat "(0, 22)"
        "keyRequest None (TypeString ''Interface'') [''@type'', ''@id'', ''contents'']"
        sampleOntology]
  by (simp add: sample_defs)

text \<open>
  C8, as the code has it.  At a key position in an object for which no type is resolved
  (its \<open>@type\<close> is missing, empty or an empty array, and the enclosing property gives no
  single type that is not a root kind), the candidate list is the single entry \<open>@type\<close>,
  required, when the object has no key \<open>@type\<close> yet, and empty when it has one.
\<close>

theorem unresolved_type_completion:
  assumes "getJsonInfoAtPosition json document pos = Some ji"
    and "\<not> isValue ji"
    and "\<not> usableType (resolveType parser (contextAt json document pos) ji)"
  shows "provideCompletionItems parser json document pos =
           Some (KeyItems
             (if ''@type'' \<in> set (properties ji) then []
              else [\<lparr>label = ''@type'', required = True, type = None\<rparr>]))"
proof -
  have "resolveType parser (contextAt json document pos) ji \<noteq> TypeString ''Interface''"
    and "resolveType parser (contextAt json document pos) ji \<noteq> TypeString ''CapabilityModel''"
    using assms(3) by (auto simp: usableType_def)
  then have "keyCompletion parser (contextAt json document pos) ji =
     (if ''@type'' \<in> set (properties ji) then []
      else [\<lparr>label = ''@type'', required = True, type = None\<rparr>])"
    using assms(3) by (simp add: keyCompletion_def)
  then show ?thesis
    using provideCompletionItems_key [OF assms(1,2)] by simp
qed

theorem unresolved_type_completion_witness:
  "\<not> usableType
       (resolveType sampleOntology dtInterface (keyRequest (Some ''unit'') TypeUndefined [])) \<and>
   provideCompletionItems sampleOntology
     (parserReporting (Some (keyRequest (Some ''unit'') TypeUndefined [])) None)
     thermostat (0, 1)
   = Some (KeyItems [\<lparr>label = ''@type'', required = True, type = None\<rparr>])"
  using unresolved_type_completion
    [of "parserReporting (Some (keyRequest (Some ''unit'') TypeUndefined [])) None"
        thermostat "(0, 1)" "keyRequest (Some ''unit'') TypeUndefined []" sampleOntology]
  by (simp add: sample_defs)

text \<open>
  The claim C8 promises the entry \<open>@type\<close> whenever no type is resolved.  An object whose
  \<open>@type\<close> is the empty string has no usable type and has the key \<open>@type\<close>: the filter of
  lines 296-300 removes the entry, and the list is empty.
\<close>

theorem unresolved_type_counterexample:
  "\<not> usableType
       (resolveType sampleOntology dtInterface (keyRequest None (TypeString []) [''@type''])) \<and>
   provideCompletionItems sampleOntology
     (parserReporting (Some (keyRequest None (TypeString []) [''@type''])) None)
     thermostat (0, 13)
   = Some (KeyItems [])"
  by (simp add: sample_defs)

text \<open>
  C9, as the code has it.  At a key position in an object whose type is the string
  \<open>Interface\<close> or the string \<open>CapabilityModel\<close>, the candidates include \<open>@context\<close>,
  required, when the object has no key \<open>@context\<close>, and \<open>@id\<close>, required, when it has no
  key \<open>@id\<close>.
\<close>

theorem root_kind_completion:
  assumes "getJsonInfoAtPosition json document pos = Some ji"
    and "\<not> isValue ji"
    and "jsonType ji = TypeString ''Interface'' \<or> jsonType ji = TypeString ''CapabilityModel''"
  shows "\<exists>items.
           provideCompletionItems parser json document pos = Some (KeyItems items) \<and>
           (''@context'' \<notin> set (properties ji) \<longrightarrow>
              \<lparr>label = ''@context'', required = True, type = None\<rparr> \<in> set items) \<and>
           (''@id'' \<notin> set (properties ji) \<longrightarrow>
              \<lparr>label = ''@id'', required = True, type = Some ''string''\<rparr> \<in> set items)"
proof -
  have t: "resolveType parser (contextAt json document pos) ji = jsonType ji"
    using assms(3) by (auto simp: resolveType_def truthyType_def)
  let ?items = "keyCompletion parser (contextAt json document pos) ji"
  have c: "\<lparr>label = ''@context'', required = True, type = None\<rparr> \<in> set ?items"
    if "''@context'' \<notin> set (properties ji)"
    using that assms(3) by (auto simp: keyCompletion_def t usableType_def)
  have i: "\<lparr>label = ''@id'', required = True, type = Some ''string''\<rparr> \<in> set ?items"
    if "''@id'' \<notin> set (properties ji)"
    using that assms(3) by (auto simp: keyCompletion_def t usableType_def)
  from c i show ?thesis
    using provideCompletionItems_key [OF assms(1,2)] by simp
qed

theorem root_kind_completion_witness:
  "jsonType (keyRequest None (TypeString ''Interface'') [''@type'']) = TypeString ''Interface'' \<and>
   ''@context'' \<notin> set (properties (keyRequest None (TypeString ''Interface'') [''@type''])) \<and>
   ''@id'' \<notin> set (properties (keyRequest None (TypeString ''Interface'') [''@type''])) \<and>
   provideCompletionItems sampleOntology
     (parserReporting (Some (keyRequest None (TypeString ''Interface'') [''@type''])) None)
     thermostat (0, 22)
   = Some (KeyItems
       [\<lparr>label = ''@context'', required = True, type = None\<rparr>,
        \<lparr>label = ''contents'', required = False, type = None\<rparr>,
        \<lparr>label = ''displayName'', required = False, type = Some ''string''\<rparr>,
        \<lparr>label = ''@id'', required = True, type = Some ''string''\<rparr>])"
  using root_kind_completion
    [of "parserReporting (Some (keyRequest None (TypeString ''Interface'') [''@type''])) None"
        thermostat "(0, 22)" "keyRequest None (TypeString ''Interface'') [''@type'']"
        sampleOntology]
  by (simp add: sample_defs)

text \<open>
  The claim C9 covers a type given as an array that contains the root kind.  The tests of
  lines 257-258 and 302-303 compare \<open>jsonInfo.type\<close> with a string, which an array never
  equals: for the type \<^verbatim>\<open>["Interface"]\<close> neither \<open>@context\<close> nor \<open>@id\<close> is a candidate.
\<close>

theorem root_kind_array_counterexample:
  "provideCompletionItems sampleOntology
     (parserReporting (Some (keyRequest None (TypeArray [''Interface'']) [''@type''])) None)
     thermostat (0, 24)
   = Some (KeyItems
       [\<lparr>label = ''contents'', required = False, type = None\<rparr>,
        \<lparr>label = ''displayName'', required = False, type = Some ''string''\<rparr>])"
  by (simp add: sample_defs)

subsection \<open>Value positions\<close>

text \<open>
  C6, as the code has it.  At a value position of the key \<open>@context\<close> the candidate list
  is exactly one literal, a fixed uri selected by the context type that the JSON parser
  reports for the position: the uri of \<open>Interface\<close> when that context type is \<open>Interface\<close>,
  the uri of \<open>CapabilityModel\<close> otherwise.  Where the reported context type is the type of
  the document, the literal is the uri of \<open>Interface\<close> for a file named
  \<^verbatim>\<open>*.interface.json\<close> and the uri of \<open>CapabilityModel\<close> for any other file.
\<close>

theorem context_value_completion:
  assumes "getJsonInfoAtPosition json document pos = Some ji"
    and "isValue ji"
    and "key ji = ''@context''"
  shows "provideCompletionItems parser json document pos =
           Some (ValueItems
             [if contextTypeAt json document pos = ''Interface''
              then ''http://azureiot.com/v0/contexts/Interface.json''
              else ''http://azureiot.com/v0/contexts/CapabilityModel.json'']) \<and>
         (contextTypeAt json document pos = getDocumentType document \<longrightarrow>
            provideCompletionItems parser json document pos =
              Some (ValueItems
                [if endsWith (fsPath document) ''.interface.json''
                 then ''http://azureiot.com/v0/contexts/Interface.json''
                 else ''http://azureiot.com/v0/contexts/CapabilityModel.json'']))"
  using assms(3) provideCompletionItems_value [OF assms(1,2)]
  by (simp add: valueCompletion_def getDocumentType_def)

theorem context_value_completion_witness:
  "isValue (valueRequest ''@context'' None [''@type'', ''@context'']) \<and>
   key (valueRequest ''@context'' None [''@type'', ''@context'']) = ''@context'' \<and>
   provideCompletionItems sampleOntology
     (parserReporting (Some (valueRequest ''@context'' None [''@type'', ''@context''])) None)
     thermostat (0, 35)
   = Some (ValueItems [''http://azureiot.com/v0/contexts/Interface.json'']) \<and>
   provideCompletionItems sampleOntology
     (parserReporting (Some (valueRequest ''@context'' None [''@type'', ''@context''])) None)
     hub (0, 35)
   = Some (ValueItems [''http://azureiot.com/v0/contexts/CapabilityModel.json''])"
  using context_value_completion
    [of "parserReporting (Some (valueRequest ''@context'' None [''@type'', ''@context''])) None"
        thermostat "(0, 35)" "valueRequest ''@context'' None [''@type'', ''@context'']"
        sampleOntology]
    context_value_completion
    [of "parserReporting (Some (valueRequest ''@context'' None [''@type'', ''@context''])) None"
        hub "(0, 35)" "valueRequest ''@context'' None [''@type'', ''@context'']"
        sampleOntology]
  by (simp add: sample_defs)

text \<open>
  The claim C6 selects the uri by the kind of the document.  The provider selects it by
  \<open>contextType\<close>, which the JSON parser computes for the position: in a capability model
  file, at a position that the parser reports to be in the context \<open>Interface\<close>, the
  literal is the uri of \<open>Interface\<close>.
\<close>

theorem context_value_document_kind_counterexample:
  "getDocumentType hub = ''CapabilityModel'' \<and>
   provideCompletionItems sampleOntology
     (parserInContext ''Interface''
        (Some (valueRequest ''@context'' (Some ''implements'') [''@type'', ''@context''])))
     hub (4, 20)
   = Some (ValueItems [''http://azureiot.com/v0/contexts/Interface.json''])"
  by (simp add: sample_defs parserInContext_def)

text \<open>
  C5, as the code has it.  At a value position of the key \<open>@type\<close>: when the request names
  an enclosing property and the property resolves to an id, the candidates are exactly the
  types of that id; when it names an enclosing property that does not resolve, the provider
  returns \<open>null\<close>; when it names no enclosing property, the only candidate is the context
  type of the request.
\<close>

theorem type_value_completion:
  assumes "getJsonInfoAtPosition json document pos = Some ji"
    and "isValue ji"
    and "key ji = ''@type''"
  shows "(\<forall>i. truthy (lastKey ji) \<and> i \<noteq> [] \<and>
              getIdFromShortName parser (contextAt json document pos) (lastKey ji) = Some i \<longrightarrow>
            provideCompletionItems parser json document pos =
              Some (ValueItems (getTypesFromId parser (contextAt json document pos) i))) \<and>
         (truthy (lastKey ji) \<and>
            \<not> truthy (getIdFromShortName parser (contextAt json document pos) (lastKey ji)) \<longrightarrow>
            provideCompletionItems parser json document pos = None) \<and>
         (\<not> truthy (lastKey ji) \<longrightarrow>
            provideCompletionItems parser json document pos =
              Some (ValueItems [contextTypeAt json document pos]))"
  using assms(3) provideCompletionItems_value [OF assms(1,2)]
  by (auto simp: valueCompletion_def truthy_def split: option.splits)

theorem type_value_completion_witness:
  "key (valueRequest ''@type'' (Some ''contents'') [''@type'']) = ''@type'' \<and>
   truthy (lastKey (valueRequest ''@type'' (Some ''contents'') [''@type''])) \<and>
   getIdFromShortName sampleOntology dtInterface
     (lastKey (valueRequest ''@type'' (Some ''contents'') [''@type'']))
   = Some ''http://azureiot.com/v0/contents'' \<and>
   provideCompletionItems sampleOntology
     (parserReporting (Some (valueRequest ''@type'' (Some ''contents'') [''@type''])) None)
     thermostat (0, 50)
   = Some (ValueItems [''Telemetry'', ''Property''])"
  using type_value_completion
    [of "parserReporting (Some (valueRequest ''@type'' (Some ''contents'') [''@type''])) None"
        thermostat "(0, 50)" "valueRequest ''@type'' (Some ''contents'') [''@type'']"
        sampleOntology]
  by (simp add: sample_defs)

text \<open>
  The claim C5 gives the two root kind names where no enclosing property resolves.  With
  no enclosing property the list holds one name, the context type (line 223); with an
  enclosing property that the ontology does not know, the provider returns \<open>null\<close> (line
  219).
\<close>

theorem type_value_root_counterexample:
  "provideCompletionItems sampleOntology
     (parserReporting (Some (valueRequest ''@type'' None [''@type''])) None)
     thermostat (0, 11)
   = Some (ValueItems [''Interface'']) \<and>
   provideCompletionItems sampleOntology
     (parserReporting (Some (valueRequest ''@type'' (Some ''telemetry'') [''@type''])) None)
     thermostat (0, 50)
   = None"
  by (simp add: sample_defs)

subsection \<open>Requests without a suggestion, and failing calls\<close>











section \<open>Properties of the hover provider\<close>

text \<open>
  C7, as the code has it.  Each of the three reserved keys \<open>@id\<close>, \<open>@type\<close> and
  \<open>@context\<close> yields a fixed documentation string; every other identifier, \<open>@value\<close>
  among them, yields its comment from the ontology graph, and no result when the graph has
  no comment for it or an empty one.
\<close>

theorem hover_text:
  assumes "getIdAtPosition json document pos dtInterface = Some i"
  shows "provideHover parser json document pos =
           (if i = ''@id'' then
              Some ''An identifier for Digital Twin capability model or interface.''
            else if i = ''@type'' then Some ''The type of Digital Twin meta model object.''
            else if i = ''@context'' then
              Some ''The context for Digital Twin capability model or interface.''
            else if i \<noteq> [] \<and> truthy (getCommentFromId parser i) then getCommentFromId parser i
            else None)"
  using assms by (simp add: provideHover_def truthy_def)

theorem hover_text_witness:
  "getIdAtPosition (parserReporting None (Some ''@context'')) thermostat (0, 25) dtInterface
     = Some ''@context'' \<and>
   provideHover sampleOntology (parserReporting None (Some ''@context'')) thermostat (0, 25)
     = Some ''The context for Digital Twin capability model or interface.'' \<and>
   provideHover sampleOntology
     (parserReporting None (Some ''http://azureiot.com/v0/contents'')) thermostat (0, 25)
     = Some ''The capabilities of an interface.''"
  using hover_text
    [of "parserReporting None (Some ''@context'')" thermostat "(0, 25)" "''@context''"
        sampleOntology]
    hover_text
    [of "parserReporting None (Some ''http://azureiot.com/v0/contents'')" thermostat "(0, 25)"
        "''http://azureiot.com/v0/contents''" sampleOntology]
  by (simp add: sample_defs provideHover_def)

text \<open>
  The claim C7 lists \<open>@value\<close> among the keys with a fixed string.  The provider has no
  branch for it: it asks the ontology for a comment, and the sample ontology has none.
\<close>

theorem hover_value_counterexample:
  "provideHover sampleOntology (parserReporting None (Some ''@value'')) thermostat (0, 25)
     = None"
  by (simp add: sample_defs provideHover_def)


section \<open>Properties of the revalidation of diagnostics\<close>

lemmas timer_defs =
  activate_def onDidOpenTextDocument_def onDidChangeTextDocument_def
  onDidChangeActiveTextEditor_def onDidCloseTextDocument_def timerFires_def runCallback_def
  setTimeout_def clearTimeout_def revalidate_def update_def delete_def pendingFor_def
  callbackPath_def isMetaModelFile_def getDocumentType_def endsWith_def
  noteText_def liveDocument_def
  thermostat_def hub_def draft_def readme_def sampleValidator_def

lemma run_append: "run validate s (es @ es') = run validate (run validate s es) es'"
  by (induction es arbitrary: s) simp_all

subsection \<open>The shared timer handle\<close>

lemma edit_cancels_handle:
  assumes "isMetaModelFile document"
  shows "timers (step validate (DidChangeTextDocument document) s) =
           filter (\<lambda>t. Some (handle t) \<noteq> waitingForUpdatingDiagnostic s) (timers s) @
           [\<lparr>handle = nextHandle s, delay = 500,
             callback = ChangeCallback (fsPath document)\<rparr>]"
    and "waitingForUpdatingDiagnostic (step validate (DidChangeTextDocument document) s) =
           Some (nextHandle s)"
  using assms
  by (auto simp: onDidChangeTextDocument_def setTimeout_def clearTimeout_def noteText_def
      split: option.splits intro: filter_cong)

lemma singleTimer_activate: "singleTimer (activate validate editor)"
  by (simp add: singleTimer_def activate_def)

lemma singleTimer_change:
  assumes "singleTimer s" and "isMetaModelFile document"
  shows "timers (step validate (DidChangeTextDocument document) s) =
           [\<lparr>handle = nextHandle s, delay = 500,
             callback = ChangeCallback (fsPath document)\<rparr>]"
  using assms(1) unfolding edit_cancels_handle(1) [OF assms(2)]
  by (auto simp: singleTimer_def split: list.splits)

lemma singleTimer_step:
  assumes "singleTimer s"
    and "case e of
           DidOpenTextDocument document \<Rightarrow> isMetaModelFile document \<longrightarrow> timers s = []
         | _ \<Rightarrow> True"
  shows "singleTimer (step validate e s)"
proof (cases e)
  case (DidOpenTextDocument d)
  then show ?thesis
    using assms
    by (auto simp: singleTimer_def onDidOpenTextDocument_def setTimeout_def noteText_def
        split: list.splits)
next
  case (DidChangeTextDocument d)
  show ?thesis
  proof (cases "isMetaModelFile d")
    case True
    then show ?thesis
      using DidChangeTextDocument singleTimer_change [OF assms(1) True, of validate]
        edit_cancels_handle(2) [OF True, of validate s]
      by (simp add: singleTimer_def)
  next
    case False
    then show ?thesis
      using DidChangeTextDocument assms(1)
      by (auto simp: singleTimer_def onDidChangeTextDocument_def noteText_def
          split: list.splits)
  qed
next
  case (DidChangeActiveTextEditor ed)
  then show ?thesis
    using assms(1)
    by (auto simp: singleTimer_def onDidChangeActiveTextEditor_def noteText_def
        split: option.splits list.splits)
next
  case (DidCloseTextDocument d)
  then show ?thesis
    using assms(1)
    by (auto simp: singleTimer_def onDidCloseTextDocument_def noteText_def
        split: list.splits)
next
  case (TimerFires h)
  then show ?thesis
    using assms(1)
    by (auto simp: singleTimer_def timerFires_def runCallback_def clearTimeout_def
        split: list.splits option.splits callback.splits if_splits)
qed

lemma singleTimer_run:
  assumes "singleTimer s" and "opensOnlyWhenIdle validate s es"
  shows "singleTimer (run validate s es)"
  using assms by (induction es arbitrary: s) (simp_all add: singleTimer_step)

lemma singleTimer_length: "singleTimer s \<Longrightarrow> length (timers s) \<le> 1"
  by (simp add: singleTimer_def split: list.splits)

text \<open>
  C2, as the code has it.  The extension keeps one timer handle for all documents.  An
  edit of a metamodel document cancels the timer to which the handle refers, whichever
  document that timer was set for, and then sets a timer for the edited document, to which
  the handle refers from then on.  So, as long as no metamodel document is opened while a
  timer is pending, at most one revalidation timer is pending at any time over all
  documents, hence at most one for each document, and after an edit the pending timer is
  the one of the edited document.
\<close>

theorem shared_handle_single_timer:
  "(isMetaModelFile document \<longrightarrow>
      timers (step validate (DidChangeTextDocument document) s) =
        filter (\<lambda>t. Some (handle t) \<noteq> waitingForUpdatingDiagnostic s) (timers s) @
        [\<lparr>handle = nextHandle s, delay = 500,
          callback = ChangeCallback (fsPath document)\<rparr>] \<and>
      waitingForUpdatingDiagnostic (step validate (DidChangeTextDocument document) s) =
        Some (nextHandle s)) \<and>
   (opensOnlyWhenIdle validate (activate validate editor) es \<longrightarrow>
      length (timers (run validate (activate validate editor) es)) \<le> 1 \<and>
      length (pendingFor path (run validate (activate validate editor) es)) \<le> 1 \<and>
      (isMetaModelFile document \<longrightarrow>
         map callback
           (timers (run validate (activate validate editor)
                      (es @ [DidChangeTextDocument document])))
         = [ChangeCallback (fsPath document)]))"
proof -
  let ?s = "run validate (activate validate editor) es"
  have first: "timers (step validate (DidChangeTextDocument document) s) =
        filter (\<lambda>t. Some (handle t) \<noteq> waitingForUpdatingDiagnostic s) (timers s) @
        [\<lparr>handle = nextHandle s, delay = 500,
          callback = ChangeCallback (fsPath document)\<rparr>] \<and>
      waitingForUpdatingDiagnostic (step validate (DidChangeTextDocument document) s) =
        Some (nextHandle s)" if "isMetaModelFile document"
    using edit_cancels_handle [OF that, of validate s] by simp
  have second: "length (timers ?s) \<le> 1 \<and> length (pendingFor path ?s) \<le> 1 \<and>
      (isMetaModelFile document \<longrightarrow>
         map callback
           (timers (run validate (activate validate editor)
                      (es @ [DidChangeTextDocument document])))
         = [ChangeCallback (fsPath document)])"
    if idle: "opensOnlyWhenIdle validate (activate validate editor) es"
  proof -
    have inv: "singleTimer ?s"
      using singleTimer_run [OF singleTimer_activate idle] .
    then have all: "length (timers ?s) \<le> 1"
      by (rule singleTimer_length)
    have "length (pendingFor path ?s) \<le> length (timers ?s)"
      by (simp add: pendingFor_def)
    with all have one: "length (pendingFor path ?s) \<le> 1"
      by simp
    have "map callback
            (timers (run validate (activate validate editor)
                       (es @ [DidChangeTextDocument document])))
          = [ChangeCallback (fsPath document)]" if "isMetaModelFile document"
      using singleTimer_change [OF inv that, of validate] by (simp add: run_append)
    with all one show ?thesis by blast
  qed
  from first second show ?thesis by blast
qed

theorem shared_handle_single_timer_witness:
  "isMetaModelFile thermostat \<and>
   opensOnlyWhenIdle sampleValidator (activate sampleValidator (Some thermostat))
     [DidChangeTextDocument thermostat, DidOpenTextDocument readme,
      DidChangeTextDocument hub, TimerFires 1, DidOpenTextDocument hub] \<and>
   map callback
     (timers (run sampleValidator (activate sampleValidator (Some thermostat))
                [DidChangeTextDocument thermostat, DidOpenTextDocument readme,
                 DidChangeTextDocument hub]))
   = [ChangeCallback ''/models/hub.capabilitymodel.json''] \<and>
   map callback
     (timers (run sampleValidator (activate sampleValidator (Some thermostat))
                [DidChangeTextDocument thermostat, DidOpenTextDocument readme,
                 DidChangeTextDocument hub, TimerFires 1, DidOpenTextDocument hub]))
   = [OpenCallback ''/models/hub.capabilitymodel.json''] \<and>
   map callback
     (timers (run sampleValidator (activate sampleValidator (Some thermostat))
                ([DidChangeTextDocument thermostat, DidOpenTextDocument readme,
                  DidChangeTextDocument hub, TimerFires 1, DidOpenTextDocument hub]
                 @ [DidChangeTextDocument thermostat])))
   = [ChangeCallback ''/models/thermostat.interface.json'']"
  using shared_handle_single_timer
    [of thermostat sampleValidator "activate sampleValidator (Some thermostat)"
        "Some thermostat"
        "[DidChangeTextDocument thermostat, DidOpenTextDocument readme,
          DidChangeTextDocument hub, TimerFires 1, DidOpenTextDocument hub]"
        "fsPath thermostat"]
  by (simp add: timer_defs)

text \<open>
  The claim C2 gives every document a timer of its own.  An edit of \<open>hub\<close> cancels the
  pending timer of \<open>thermostat\<close>, so the two are not independent; and since the open
  handler overwrites the handle without cancelling, a second edit of \<open>thermostat\<close> after
  \<open>hub\<close> was opened leaves two timers pending for \<open>thermostat\<close>.
\<close>

theorem per_document_timer_counterexample:
  "map callback
     (pendingFor (fsPath thermostat)
        (run sampleValidator (activate sampleValidator None)
           [DidChangeTextDocument thermostat]))
   = [ChangeCallback ''/models/thermostat.interface.json''] \<and>
   pendingFor (fsPath thermostat)
     (run sampleValidator (activate sampleValidator None)
        [DidChangeTextDocument thermostat, DidChangeTextDocument hub])
   = [] \<and>
   map callback
     (pendingFor (fsPath thermostat)
        (run sampleValidator (activate sampleValidator None)
           [DidChangeTextDocument thermostat, DidOpenTextDocument hub, TimerFires 1,
            DidChangeTextDocument thermostat]))
   = [ChangeCallback ''/models/thermostat.interface.json'',
      ChangeCallback ''/models/thermostat.interface.json'']"
  by (simp add: timer_defs)

subsection \<open>Closing a document\<close>

lemma close_clears:
  "isMetaModelFile document \<Longrightarrow>
     diagnostics (step validate (DidCloseTextDocument document) s) (fsPath document) = []"
  by (simp add: onDidCloseTextDocument_def delete_def noteText_def)

lemma close_keeps_timers:
  "timers (step validate (DidCloseTextDocument document) s) = timers s"
  by (simp add: onDidCloseTextDocument_def noteText_def)

text \<open>
  C3.  Closing a metamodel document is to discard its diagnostics for good: after the
  close event the diagnostic listing of the document is empty and stays empty, and no
  pending timer brings diagnostics of the closed document back.  The close handler does
  clear the listing, but it leaves the timers alone: after an edit of \<open>draft\<close> and its
  close, the listing is empty, the timer of the edit is still pending, and when it fires
  the diagnostics of the closed document are published again.
\<close>

theorem close_then_timer_republishes:
  "diagnostics
     (run sampleValidator (activate sampleValidator None)
        [DidChangeTextDocument draft, DidCloseTextDocument draft])
     (fsPath draft)
   = [] \<and>
   map callback
     (timers
        (run sampleValidator (activate sampleValidator None)
           [DidChangeTextDocument draft, DidCloseTextDocument draft]))
   = [ChangeCallback ''/models/draft.interface.json''] \<and>
   diagnostics
     (run sampleValidator (activate sampleValidator None)
        [DidChangeTextDocument draft, DidCloseTextDocument draft, TimerFires 0])
     (fsPath draft)
   = [\<lparr>span = (0, 2), message = ''Missing required property @id'', severity = ''Error''\<rparr>]"
  by (simp add: timer_defs)

end
